theory Spec2Isabelle
  imports Complex_Main
begin

section \<open>Shared data model\<close>

text \<open>
  Python exceptions are values. The string is the message (for \<open>KeyError\<close>: the key).
  \<open>NotModelled\<close> is no exception: it marks an input outside what a definition covers.
  Floating-point numbers are idealised as real numbers throughout, and dtype casts
  (\<open>as_type\<close>) are therefore the identity.
\<close>

datatype error =
    AttributeError string
  | ValueError string
  | KeyError string
  | IndexError string
  | TypeError string
  | ShapeError string
  | ZeroDivisionError
  | DeviceError string
  | FileNotFoundError string
  | NotModelled string

datatype device = CPU | CUDA

text \<open>
  Modelled from the spec: the class \<open>Tensor\<close> is not under src/. A value is "an
  n-dimensional array with shape, element type, and device tag": here its shape, its
  elements in row-major order and the device it is stored on.
\<close>

record tensor =
  shape :: "nat list"
  data :: "real list"
  dev :: device

text \<open>
  Modelled from the spec: the class \<open>Parameter\<close> is not under src/. A parameter is "a
  named Value plus a GradientSlot plus a \<open>requires_grad\<close> flag"; the slot \<open>grad\<close> is
  \<open>None\<close> when absent.
\<close>

record parameter =
  p_label :: string
  p_tensor :: tensor
  grad :: "tensor option"
  requires_grad :: bool

section \<open>Early stopping callback (\<open>compyute/nn/trainer/callbacks/early_stopping.py\<close>)\<close>

text \<open>
  The entries of \<open>trainer.state\<close>: a float or a list of floats.
\<close>

datatype state_entry = Number real | Series "real list"

text \<open>
  \<open>best_loss\<close> starts as \<open>float("inf")\<close>.
\<close>

datatype loss_bound = Infinity | Finite real

fun less_bound :: "real \<Rightarrow> loss_bound \<Rightarrow> bool" where
  "less_bound h Infinity = True"
| "less_bound h (Finite b) = (h < b)"

fun greater_bound :: "real \<Rightarrow> loss_bound \<Rightarrow> bool" where
  "greater_bound h Infinity = False"
| "greater_bound h (Finite b) = (h > b)"

record trainer =
  state :: "string \<rightharpoonup> state_entry"
  model_parameters :: "parameter list"
  abort :: bool

text \<open>
  The callback's own \<open>state\<close> dictionary has the key \<open>best_loss\<close> from construction
  and the key \<open>best_params\<close> once a snapshot was taken.
\<close>

record early_stopping =
  patience :: int
  use_best_params :: bool
  target :: string
  best_loss :: loss_bound
  best_params :: "parameter list option"

definition EarlyStopping :: "int \<Rightarrow> bool \<Rightarrow> string \<Rightarrow> early_stopping" where
  "EarlyStopping pat ubp tgt =
     \<lparr>patience = pat, use_best_params = ubp, target = tgt,
      best_loss = Infinity, best_params = None\<rparr>"

text \<open>
  \<open>for i, p in enumerate(trainer.model.parameters): p.data = best_params[i].data\<close>:
  both lists are walked in step; a snapshot shorter than the parameter list is an
  \<open>IndexError\<close>. Only the tensor of a parameter is written, never its gradient slot.
\<close>

fun restore_params :: "parameter list \<Rightarrow> parameter list \<Rightarrow> error + parameter list" where
  "restore_params [] bs = Inr []"
| "restore_params (p # ps) [] = Inl (IndexError ''list index out of range'')"
| "restore_params (p # ps) (b # bs) =
     (case restore_params ps bs of
        Inl e \<Rightarrow> Inl e
      | Inr ps' \<Rightarrow> Inr (p\<lparr>p_tensor := p_tensor b\<rparr> # ps'))"

definition on_epoch :: "early_stopping \<Rightarrow> trainer \<Rightarrow> error + (early_stopping \<times> trainer)" where
  "on_epoch cb tr =
     (if target cb \<notin> dom (state tr)
      then Inl (ValueError (target cb @ '' not found in trainer state.''))
      else case state tr (''epoch_'' @ target cb) of
        None \<Rightarrow> Inl (KeyError (''epoch_'' @ target cb))
      | Some (Number v) \<Rightarrow> Inl (TypeError ''float object is not subscriptable'')
      | Some (Series hist) \<Rightarrow>
          (if hist = [] then Inl (IndexError ''list index out of range'')
           else
             let best = best_loss cb;
                 cb1 = (if less_bound (last hist) best
                        then cb\<lparr>best_loss := Finite (last hist),
                                best_params :=
                                  (if use_best_params cb then Some (model_parameters tr)
                                   else best_params cb)\<rparr>
                        else cb)
             in if int (length hist) \<le> patience cb then Inr (cb1, tr)
                else if list_all (\<lambda>i. greater_bound (hist ! nat (int (length hist) - i)) best)
                          [1..patience cb]
                then (if use_best_params cb
                      then (case best_params cb1 of
                              None \<Rightarrow>
                                (if model_parameters tr = []
                                 then Inr (cb1, tr\<lparr>abort := True\<rparr>)
                                 else Inl (KeyError ''best_params''))
                            | Some bs \<Rightarrow>
                                (case restore_params (model_parameters tr) bs of
                                   Inl e \<Rightarrow> Inl e
                                 | Inr ps \<Rightarrow>
                                     Inr (cb1, tr\<lparr>model_parameters := ps, abort := True\<rparr>)))
                      else Inr (cb1, tr\<lparr>abort := True\<rparr>))
                else Inr (cb1, tr)))"

text \<open>
  Modelled from the spec: the trainer loop is not under src/. One epoch leaves the model
  with the parameters \<open>ps\<close>, records the epoch's loss \<open>l\<close> under \<open>loss\<close>, appends it to
  the history \<open>epoch_loss\<close> and then calls the callback.
\<close>

definition epoch_history :: "trainer \<Rightarrow> real list" where
  "epoch_history tr =
     (case state tr ''epoch_loss'' of Some (Series h) \<Rightarrow> h | _ \<Rightarrow> [])"

definition run_epoch ::
  "early_stopping \<times> trainer \<Rightarrow> real \<times> parameter list \<Rightarrow> error + (early_stopping \<times> trainer)" where
  "run_epoch ct e =
     (case (ct, e) of
        ((cb, tr), (l, ps)) \<Rightarrow>
          on_epoch cb
            (tr\<lparr>state := (state tr)(''loss'' \<mapsto> Number l,
                                     ''epoch_loss'' \<mapsto> Series (epoch_history tr @ [l])),
                model_parameters := ps\<rparr>))"

fun run_epochs ::
  "early_stopping \<times> trainer \<Rightarrow> (real \<times> parameter list) list \<Rightarrow> error + (early_stopping \<times> trainer)" where
  "run_epochs ct [] = Inr ct"
| "run_epochs ct (e # es) =
     (case run_epoch ct e of Inl err \<Rightarrow> Inl err | Inr ct' \<Rightarrow> run_epochs ct' es)"

definition new_trainer :: trainer where
  "new_trainer = \<lparr>state = Map.empty, model_parameters = [], abort = False\<rparr>"

definition abort_after :: "early_stopping \<Rightarrow> (real \<times> parameter list) list \<Rightarrow> bool option" where
  "abort_after cb es =
     (case run_epochs (cb, new_trainer) es of
        Inl err \<Rightarrow> None
      | Inr (cb', tr') \<Rightarrow> Some (abort tr'))"

text \<open>A one-element parameter, for concrete runs.\<close>

definition par :: "real \<Rightarrow> parameter" where
  "par v = \<lparr>p_label = ''w'', p_tensor = \<lparr>shape = [1], data = [v], dev = CPU\<rparr>, grad = None, requires_grad = True\<rparr>"

section \<open>DataLoader (\<open>compyute/nn/dataloaders.py\<close>)\<close>

text \<open>
  Modelled from the spec: \<open>_check_device_availability\<close> (the engine) is not under src/;
  a transfer "fails if the device is unavailable in the current environment". \<open>cuda_ok\<close>
  says whether the environment has the accelerator; the CPU is always there.
\<close>

definition check_device_availability :: "bool \<Rightarrow> device \<Rightarrow> error + unit" where
  "check_device_availability cuda_ok d =
     (if d = CUDA \<and> \<not> cuda_ok then Inl (DeviceError ''cuda is not available'') else Inr ())"

text \<open>
  The loader only slices and indexes its tensors along the first axis, so a tensor is
  here the list of its samples (rows) and the device it is stored on.
\<close>

record 'a rows_tensor =
  rows :: "'a list"
  stored_on :: device








record ('a, 'b) dataloader =
  dl_x :: "'a rows_tensor"
  dl_y :: "'b rows_tensor option"
  batch_size :: int
  device :: device
  drop_remaining :: bool
  shuffle :: bool











section \<open>Metric lookup (\<open>compyute/nn/metrics.py\<close>)\<close>







section \<open>Mean squared error (\<open>compyute/nn/functional/losses.py\<close>)\<close>

text \<open>
  Elementwise arithmetic on tensors of one shape on one device. The array library also
  broadcasts operands of different shapes; that is not modelled: an operation on
  different shapes is an error here.
\<close>

definition tensor_size :: "tensor \<Rightarrow> nat" where
  "tensor_size t = prod_list (shape t)"

definition well_formed :: "tensor \<Rightarrow> bool" where
  "well_formed t = (length (data t) = tensor_size t)"

definition tensor_sub :: "tensor \<Rightarrow> tensor \<Rightarrow> error + tensor" where
  "tensor_sub a b =
     (if dev a \<noteq> dev b then Inl (DeviceError ''device mismatch'')
      else if shape a \<noteq> shape b then Inl (ShapeError ''operands of different shapes'')
      else Inr (a\<lparr>data := map2 (\<lambda>u v. u - v) (data a) (data b)\<rparr>))"


definition tensor_pow :: "tensor \<Rightarrow> nat \<Rightarrow> tensor" where
  "tensor_pow a k = a\<lparr>data := map (\<lambda>u. u ^ k) (data a)\<rparr>"

definition tensor_scale :: "tensor \<Rightarrow> real \<Rightarrow> tensor" where
  "tensor_scale a c = a\<lparr>data := map (\<lambda>u. u * c) (data a)\<rparr>"

definition tensor_div_scalar :: "tensor \<Rightarrow> real \<Rightarrow> tensor" where
  "tensor_div_scalar a c = a\<lparr>data := map (\<lambda>u. u / c) (data a)\<rparr>"

text \<open>
  \<open>mean(t)\<close>: a tensor without axes. (On an empty tensor the array library gives
  \<open>nan\<close>; the quotient by zero is \<open>0\<close> here.)
\<close>

definition tensor_mean :: "tensor \<Rightarrow> tensor" where
  "tensor_mean t =
     \<lparr>shape = [], data = [sum_list (data t) / real (length (data t))], dev = dev t\<rparr>"

text \<open>
  Modelled from the spec: the caches (\<open>FunctionCache\<close>, \<open>PseudoCache\<close>) are not under
  src/. "A recording cache (field-style assignment, arbitrary named slots) and a null
  cache that accepts and discards all assignments". Reading a slot that was never
  written is an \<open>AttributeError\<close>.
\<close>

datatype cache = Recording "string \<rightharpoonup> tensor" | PseudoCache

definition cache_set :: "cache \<Rightarrow> string \<Rightarrow> tensor \<Rightarrow> cache" where
  "cache_set c k v = (case c of Recording m \<Rightarrow> Recording (m(k \<mapsto> v)) | PseudoCache \<Rightarrow> PseudoCache)"

definition cache_get :: "cache \<Rightarrow> string \<Rightarrow> error + tensor" where
  "cache_get c k =
     (case c of
        Recording m \<Rightarrow> (case m k of None \<Rightarrow> Inl (AttributeError k) | Some v \<Rightarrow> Inr v)
      | PseudoCache \<Rightarrow> Inl (AttributeError k))"

definition FMeanSquaredError_forward :: "cache \<Rightarrow> tensor \<Rightarrow> tensor \<Rightarrow> error + (tensor \<times> cache)" where
  "FMeanSquaredError_forward c y_pred y_true =
     (case tensor_sub y_pred y_true of
        Inl e \<Rightarrow> Inl e
      | Inr dif \<Rightarrow>
          Inr (tensor_mean (tensor_pow dif 2),
               cache_set (cache_set c ''y_pred'' y_pred) ''dif'' dif))"

definition FMeanSquaredError_backward :: "cache \<Rightarrow> error + tensor" where
  "FMeanSquaredError_backward c =
     (case cache_get c ''dif'' of
        Inl e \<Rightarrow> Inl e
      | Inr dif \<Rightarrow>
          (case cache_get c ''y_pred'' of
             Inl e \<Rightarrow> Inl e
           | Inr y_pred \<Rightarrow>
               Inr (tensor_div_scalar (tensor_scale dif 2) (real (tensor_size y_pred)))))"

definition mean_squared_error :: "tensor \<Rightarrow> tensor \<Rightarrow> error + tensor" where
  "mean_squared_error y_pred y_true =
     (case FMeanSquaredError_forward PseudoCache y_pred y_true of
        Inl e \<Rightarrow> Inl e
      | Inr (l, c) \<Rightarrow> Inr l)"

text \<open>
  The claim's function: the mean of the squared differences, as a function of the
  elements of the prediction.
\<close>

definition mse :: "real list \<Rightarrow> real list \<Rightarrow> real" where
  "mse ps ts = sum_list (map2 (\<lambda>p t. (p - t) ^ 2) ps ts) / real (length ps)"

definition vec :: "real list \<Rightarrow> tensor" where
  "vec xs = \<lparr>shape = [length xs], data = xs, dev = CPU\<rparr>"

section \<open>Fully connected layer (\<open>walnut/nn/layers/parameter.py\<close>)\<close>

text \<open>
  Tensors with two axes \<open>[r, c]\<close> hold their elements row by row: element \<open>(i, j)\<close> is
  \<open>data ! (i * c + j)\<close>. The definitions below cover operands with two axes (and a bias
  with one); other ranks are \<open>NotModelled\<close>.
\<close>

definition ones :: "nat list \<Rightarrow> tensor" where
  "ones s = \<lparr>shape = s, data = replicate (prod_list s) 1, dev = CPU\<rparr>"

definition zeros :: "nat list \<Rightarrow> tensor" where
  "zeros s = \<lparr>shape = s, data = replicate (prod_list s) 0, dev = CPU\<rparr>"

definition matmul :: "tensor \<Rightarrow> tensor \<Rightarrow> error + tensor" where
  "matmul a b =
     (case (shape a, shape b) of
        ([r, c], [c', n]) \<Rightarrow>
          if c \<noteq> c' then Inl (ValueError ''matmul: mismatch in the core dimension'')
          else Inr \<lparr>shape = [r, n],
                    data = concat (map (\<lambda>i. map (\<lambda>j.
                             sum_list (map (\<lambda>k. data a ! (i * c + k) * data b ! (k * n + j)) [0..<c]))
                             [0..<n]) [0..<r]),
                    dev = dev a\<rparr>
      | _ \<Rightarrow> Inl (NotModelled ''matmul of operands without two axes''))"

definition transpose2 :: "tensor \<Rightarrow> error + tensor" where
  "transpose2 a =
     (case shape a of
        [r, c] \<Rightarrow>
          Inr \<lparr>shape = [c, r],
               data = concat (map (\<lambda>j. map (\<lambda>i. data a ! (i * c + j)) [0..<r]) [0..<c]),
               dev = dev a\<rparr>
      | _ \<Rightarrow> Inl (NotModelled ''transpose of a tensor without two axes''))"

text \<open>
  \<open>y += b\<close> with \<open>y\<close> of shape \<open>[r, n]\<close> and \<open>b\<close> of shape \<open>[n]\<close>: the bias is added to
  every row.
\<close>

definition add_bias :: "tensor \<Rightarrow> tensor \<Rightarrow> error + tensor" where
  "add_bias t b =
     (case (shape t, shape b) of
        ([r, n], [n']) \<Rightarrow>
          if n \<noteq> n' then Inl (ValueError ''operands could not be broadcast together'')
          else Inr (t\<lparr>data := concat (map (\<lambda>i. map (\<lambda>j. data t ! (i * n + j) + data b ! j)
                                               [0..<n]) [0..<r])\<rparr>)
      | _ \<Rightarrow> Inl (NotModelled ''bias on a tensor without two axes''))"

text \<open>\<open>np.sum(y_grad, axis=(0,))\<close>: the sums of the columns.\<close>

definition sum_axis0 :: "tensor \<Rightarrow> error + tensor" where
  "sum_axis0 t =
     (case shape t of
        [r, n] \<Rightarrow>
          Inr \<lparr>shape = [n],
               data = map (\<lambda>j. sum_list (map (\<lambda>i. data t ! (i * n + j)) [0..<r])) [0..<n],
               dev = dev t\<rparr>
      | _ \<Rightarrow> Inl (NotModelled ''sum over the first axis of a tensor without two axes''))"

text \<open>
  The axis order of the transposition in \<open>backward\<close>:
  \<open>tuple(d if d < dim - 2 else 2 * dim - d - 3 for d in range(dim))\<close>.
  For two axes it is \<open>(1, 0)\<close>.
\<close>

definition w_ax :: "int \<Rightarrow> int list" where
  "w_ax ndim = map (\<lambda>d. if d < ndim - 2 then d else 2 * ndim - d - 3) [0..ndim - 1]"

text \<open>
  Modelled from the spec: the base class \<open>walnut.nn.module.Module\<close> is not under src/; it
  supplies the training flag, the attribute \<open>backward\<close> (absent until a call in training
  mode stores the closure) and the retained output and output gradient written by
  \<open>set_y\<close> and \<open>set_y_grad\<close>.
  The layer itself: the weights and the bias are tensors with a gradient (\<open>w.grad\<close>,
  \<open>b.grad\<close>). The closure captures the input \<open>x\<close>; it reads the weights when it runs.
\<close>

record linear =
  lin_use_bias :: bool
  lin_w :: tensor
  lin_w_grad :: "tensor option"
  lin_b :: "tensor option"
  lin_b_grad :: "tensor option"
  lin_training :: bool
  lin_backward :: "tensor option"
  lin_y :: "tensor option"
  lin_y_grad :: "tensor option"

text \<open>
  \<open>Linear(in_channels, out_channels, weights, use_bias)\<close> with given weights (without
  them the constructor draws random ones).
\<close>

definition Linear :: "nat \<Rightarrow> nat \<Rightarrow> tensor \<Rightarrow> bool \<Rightarrow> linear" where
  "Linear in_channels out_channels weights ub =
     \<lparr>lin_use_bias = ub, lin_w = weights, lin_w_grad = None,
      lin_b = (if ub then Some (zeros [out_channels]) else None), lin_b_grad = None,
      lin_training = False, lin_backward = None, lin_y = None, lin_y_grad = None\<rparr>"

definition Linear_call :: "linear \<Rightarrow> tensor \<Rightarrow> error + (tensor \<times> linear)" where
  "Linear_call l x =
     (case matmul x (lin_w l) of
        Inl e \<Rightarrow> Inl e
      | Inr y0 \<Rightarrow>
          (case (if lin_use_bias l
                 then (case lin_b l of
                         None \<Rightarrow> Inl (AttributeError ''b'')
                       | Some b \<Rightarrow> add_bias y0 b)
                 else Inr y0) of
             Inl e \<Rightarrow> Inl e
           | Inr y1 \<Rightarrow>
               let l1 = (if lin_training l then l\<lparr>lin_backward := Some x\<rparr> else l)
               in Inr (y1, l1\<lparr>lin_y := Some y1\<rparr>)))"

definition Linear_backward :: "linear \<Rightarrow> tensor \<Rightarrow> error + (tensor \<times> linear)" where
  "Linear_backward l y_grad =
     (case lin_backward l of
        None \<Rightarrow> Inl (TypeError ''NoneType object is not callable'')
      | Some x \<Rightarrow>
          (case transpose2 (lin_w l) of
             Inl e \<Rightarrow> Inl e
           | Inr wT \<Rightarrow>
               (case matmul y_grad wT of
                  Inl e \<Rightarrow> Inl e
                | Inr x_grad \<Rightarrow>
                    (case transpose2 x of
                       Inl e \<Rightarrow> Inl e
                     | Inr xT \<Rightarrow>
                         (case matmul xT y_grad of
                            Inl e \<Rightarrow> Inl e
                          | Inr gw \<Rightarrow>
                              let l1 = l\<lparr>lin_w_grad := Some gw\<rparr>
                              in (case (if lin_use_bias l
                                        then (case sum_axis0 y_grad of
                                                Inl e \<Rightarrow> Inl e
                                              | Inr gb \<Rightarrow> Inr (l1\<lparr>lin_b_grad := Some gb\<rparr>))
                                        else Inr l1) of
                                    Inl e \<Rightarrow> Inl e
                                  | Inr l2 \<Rightarrow> Inr (x_grad, l2\<lparr>lin_y_grad := Some y_grad\<rparr>)))))))"

text \<open>A tensor with two axes from its rows.\<close>

definition mat :: "nat \<Rightarrow> nat \<Rightarrow> real list \<Rightarrow> tensor" where
  "mat r c xs = \<lparr>shape = [r, c], data = xs, dev = CPU\<rparr>"

subsection \<open>Rounds of the fully connected layer\<close>



section \<open>Modules (\<open>compyute/nn/modules/module.py\<close>, \<open>reshape.py\<close>, \<open>normalization.py\<close>)\<close>

subsection \<open>Reshaping\<close>

text \<open>
  \<open>reshape\<close> (\<open>tensor_functions.reshaping\<close>, not under src/) is the array library's: the
  elements stay, the shape changes. One entry of the target may be \<open>-1\<close> and is then
  inferred; a target that does not fit the number of elements is a \<open>ValueError\<close>.
\<close>

definition infer_shape :: "int list \<Rightarrow> nat \<Rightarrow> error + nat list" where
  "infer_shape tgt n =
     (if list_ex (\<lambda>d. d < - 1) tgt
      then Inl (ValueError ''negative dimensions not allowed'')
      else if 1 < count_list tgt (- 1)
      then Inl (ValueError ''can only specify one unknown dimension'')
      else if count_list tgt (- 1) = 1
      then (let known = nat (prod_list (filter (\<lambda>d. d \<noteq> - 1) tgt))
            in if known = 0 \<or> n mod known \<noteq> 0
               then Inl (ValueError ''cannot reshape array'')
               else Inr (map (\<lambda>d. if d = - 1 then n div known else nat d) tgt))
      else if nat (prod_list tgt) \<noteq> n
      then Inl (ValueError ''cannot reshape array'')
      else Inr (map nat tgt))"

definition reshape :: "tensor \<Rightarrow> int list \<Rightarrow> error + tensor" where
  "reshape t tgt =
     (case infer_shape tgt (length (data t)) of
        Inl e \<Rightarrow> Inl e
      | Inr s \<Rightarrow> Inr (t\<lparr>shape := s\<rparr>))"

subsection \<open>Parameters, buffers and the module state\<close>

record buffer =
  b_label :: string
  b_tensor :: tensor

definition Parameter :: "tensor \<Rightarrow> string \<Rightarrow> parameter" where
  "Parameter t l = \<lparr>p_label = l, p_tensor = t, grad = None, requires_grad = True\<rparr>"

definition Buffer :: "tensor \<Rightarrow> string \<Rightarrow> buffer" where
  "Buffer t l = \<lparr>b_label = l, b_tensor = t\<rparr>"

text \<open>
  The numeric kernel \<open>batchnorm1d\<close> (\<open>functional.normalizatons\<close>) is not under src/. It is
  a parameter \<open>K\<close> of \<open>forward\<close>: called with \<open>x, rmean, rvar, w, b, m, eps, training\<close>, it
  returns the output, the new running statistics and, possibly, a gradient function that
  maps \<open>dy\<close> to \<open>dx\<close> and the optional \<open>dw\<close> and \<open>db\<close>.
\<close>

type_synonym grad_func = "tensor \<Rightarrow> error + (tensor \<times> tensor option \<times> tensor option)"

type_synonym norm_kernel =
  "tensor \<Rightarrow> tensor \<Rightarrow> tensor \<Rightarrow> tensor \<Rightarrow> tensor \<Rightarrow> real \<Rightarrow> real \<Rightarrow> bool \<Rightarrow>
   error + (tensor \<times> tensor \<times> tensor \<times> grad_func option)"

text \<open>
  The closures that \<open>forward\<close> stores in \<open>_backward\<close>, with what they capture:
  \<open>lambda dy: reshape(dy, shape=x.shape)\<close> captures the shape of the input;
  the \<open>_backward\<close> of the normalisation layers captures the kernel's gradient function.
\<close>

datatype continuation =
    ReshapeBack "nat list"
  | NormBack grad_func

text \<open>
  The classes: the base class, whose \<open>forward\<close> is the identity, \<open>Reshape\<close> with its
  \<open>output_shape\<close>, \<open>Flatten\<close>, and \<open>Batchnorm1d\<close> with \<open>channels\<close>, \<open>eps\<close> and \<open>m\<close>.
\<close>

datatype kind =
    Module
  | Reshape "int list"
  | Flatten
  | Batchnorm1d nat real real

fun class_name :: "kind \<Rightarrow> string" where
  "class_name Module = ''Module''"
| "class_name (Reshape s) = ''Reshape''"
| "class_name Flatten = ''Flatten''"
| "class_name (Batchnorm1d c e mo) = ''Batchnorm1d''"

text \<open>
  The slots of \<open>Module\<close>. \<open>y_out\<close> is \<open>self.y\<close> and \<open>y_grad\<close> is \<open>self.y.grad\<close>;
  \<open>backward_fn\<close> is \<open>self._backward\<close>. \<open>parameters\<close> and \<open>buffers\<close> are the values of the
  properties of these names: the class's slots that hold a \<open>Parameter\<close> or a \<open>Buffer\<close>,
  in slot order (for \<open>Batchnorm1d\<close>: \<open>w, b\<close> and \<open>rmean, rvar\<close>).
\<close>

record module =
  y_out :: "tensor option"
  y_grad :: "tensor option"
  backward_fn :: "continuation option"
  label :: string
  m_device :: device
  retain_values :: bool
  training :: bool
  trainable :: bool
  kind :: kind
  parameters :: "parameter list"
  buffers :: "buffer list"

definition new_module ::
  "kind \<Rightarrow> string option \<Rightarrow> bool \<Rightarrow> parameter list \<Rightarrow> buffer list \<Rightarrow> module" where
  "new_module k lbl tr ps bs =
     \<lparr>y_out = None, y_grad = None, backward_fn = None,
      label = (case lbl of Some l \<Rightarrow> l | None \<Rightarrow> class_name k),
      m_device = CPU, retain_values = False, training = tr, trainable = True,
      kind = k, parameters = ps, buffers = bs\<rparr>"

definition new_Reshape :: "int list \<Rightarrow> string option \<Rightarrow> bool \<Rightarrow> module" where
  "new_Reshape output_shape lbl tr = new_module (Reshape output_shape) lbl tr [] []"

definition new_Batchnorm1d :: "nat \<Rightarrow> real \<Rightarrow> real \<Rightarrow> string option \<Rightarrow> bool \<Rightarrow> module" where
  "new_Batchnorm1d channels eps mo lbl tr =
     new_module (Batchnorm1d channels eps mo) lbl tr
       [Parameter (ones [channels]) ''bn1d_w'', Parameter (zeros [channels]) ''bn1d_b'']
       [Buffer (zeros [channels]) ''bn1d_rmean'', Buffer (ones [channels]) ''bn1d_rvar'']"

subsection \<open>The operations of \<open>Module\<close>\<close>

text \<open>
  \<open>to_device\<close>. The availability of the target was checked before the owned tensors are
  moved, so moving one only changes where it is stored.
\<close>

definition tensor_on :: "device \<Rightarrow> tensor \<Rightarrow> tensor" where
  "tensor_on d t = t\<lparr>dev := d\<rparr>"

definition to_device :: "bool \<Rightarrow> module \<Rightarrow> device \<Rightarrow> error + module" where
  "to_device cuda_ok m d =
     (if d = m_device m then Inr m
      else case check_device_availability cuda_ok d of
        Inl e \<Rightarrow> Inl e
      | Inr u \<Rightarrow>
          Inr (m\<lparr>m_device := d,
                 y_out := map_option (tensor_on d) (y_out m),
                 y_grad := map_option (tensor_on d) (y_grad m),
                 buffers := map (\<lambda>b. b\<lparr>b_tensor := tensor_on d (b_tensor b)\<rparr>) (buffers m),
                 parameters :=
                   map (\<lambda>p. p\<lparr>p_tensor := tensor_on d (p_tensor p),
                                grad := map_option (tensor_on d) (grad p)\<rparr>) (parameters m)\<rparr>))"

definition set_retain_values :: "module \<Rightarrow> bool \<Rightarrow> module" where
  "set_retain_values m v = m\<lparr>retain_values := v\<rparr>"

definition set_trainable :: "module \<Rightarrow> bool \<Rightarrow> module" where
  "set_trainable m v =
     (if trainable m = v then m
      else m\<lparr>trainable := v,
             parameters := map (\<lambda>p. p\<lparr>requires_grad := v\<rparr>) (parameters m)\<rparr>)"


text \<open>
  \<open>_set_y\<close>: with \<open>retain_values\<close>, the first output is stored as a copy, a later one
  replaces the data of the stored tensor, whose gradient stays.
\<close>

definition set_y :: "module \<Rightarrow> tensor \<Rightarrow> module" where
  "set_y m t =
     (if retain_values m
      then (case y_out m of
              None \<Rightarrow> m\<lparr>y_out := Some t, y_grad := None\<rparr>
            | Some old \<Rightarrow> m\<lparr>y_out := Some t\<rparr>)
      else m)"


definition reset :: "module \<Rightarrow> module" where
  "reset m =
     m\<lparr>y_out := None, y_grad := None, backward_fn := None,
       parameters := map (\<lambda>p. p\<lparr>grad := None\<rparr>) (parameters m)\<rparr>"

text \<open>
  \<open>_check_dims\<close>; the message of the source also lists the numbers of axes.
\<close>

definition check_dims :: "module \<Rightarrow> tensor \<Rightarrow> nat list \<Rightarrow> error + unit" where
  "check_dims m x valid_dims =
     (if length (shape x) \<in> set valid_dims then Inr ()
      else Inl (ShapeError (label m @ '': Number of input dimensions is not valid'')))"

subsection \<open>\<open>forward\<close> of the classes\<close>

definition Reshape_forward :: "module \<Rightarrow> int list \<Rightarrow> tensor \<Rightarrow> error + (tensor \<times> module)" where
  "Reshape_forward m target_tail x =
     (case shape x of
        [] \<Rightarrow> Inl (IndexError ''tuple index out of range'')
      | n # rest \<Rightarrow>
          (case reshape x (int n # target_tail) of
             Inl e \<Rightarrow> Inl e
           | Inr y \<Rightarrow>
               Inr (y, if training m then m\<lparr>backward_fn := Some (ReshapeBack (shape x))\<rparr>
                       else m)))"

definition Batchnorm1d_forward ::
  "norm_kernel \<Rightarrow> module \<Rightarrow> real \<Rightarrow> real \<Rightarrow> tensor \<Rightarrow> error + (tensor \<times> module)" where
  "Batchnorm1d_forward K m eps mo x =
     (case check_dims m x [2, 3] of
        Inl e \<Rightarrow> Inl e
      | Inr u \<Rightarrow>
          (case (parameters m, buffers m) of
             ([w, b], [rmean, rvar]) \<Rightarrow>
               (case K x (b_tensor rmean) (b_tensor rvar) (p_tensor w) (p_tensor b) mo eps
                       (training m) of
                  Inl e \<Rightarrow> Inl e
                | Inr (y, rmean', rvar', grad_func) \<Rightarrow>
                    let m1 = m\<lparr>buffers := [rmean\<lparr>b_tensor := rmean'\<rparr>, rvar\<lparr>b_tensor := rvar'\<rparr>]\<rparr>
                    in Inr (y, case grad_func of
                                 Some gf \<Rightarrow>
                                   if training m then m1\<lparr>backward_fn := Some (NormBack gf)\<rparr>
                                   else m1
                               | None \<Rightarrow> m1))
           | _ \<Rightarrow> Inl (AttributeError ''w'')))"

definition forward :: "norm_kernel \<Rightarrow> module \<Rightarrow> tensor \<Rightarrow> error + (tensor \<times> module)" where
  "forward K m x =
     (case kind m of
        Module \<Rightarrow> Inr (x, m)
      | Reshape output_shape \<Rightarrow> Reshape_forward m output_shape x
      | Flatten \<Rightarrow> Reshape_forward m [- 1] x
      | Batchnorm1d channels eps mo \<Rightarrow> Batchnorm1d_forward K m eps mo x)"

text \<open>\<open>__call__\<close>: \<open>y = self.forward(x); self._set_y(y); return y\<close>.\<close>

definition call :: "norm_kernel \<Rightarrow> module \<Rightarrow> tensor \<Rightarrow> error + (tensor \<times> module)" where
  "call K m x =
     (case forward K m x of
        Inl e \<Rightarrow> Inl e
      | Inr (y, m') \<Rightarrow> Inr (y, set_y m' y))"

subsection \<open>\<open>backward\<close>\<close>





subsection \<open>Saving and loading\<close>

text \<open>
  \<open>pickle\<close> writes the object graph of the module and reads it back; a file is the
  pickled module, the file system a map from paths to files. Opening a missing file for
  reading is a \<open>FileNotFoundError\<close>.
\<close>

datatype pickled = Pickled module

definition save_module ::
  "bool \<Rightarrow> (string \<rightharpoonup> pickled) \<Rightarrow> module \<Rightarrow> string \<Rightarrow> error + ((string \<rightharpoonup> pickled) \<times> module)" where
  "save_module cuda_ok fs m filepath =
     (case to_device cuda_ok m CPU of
        Inl e \<Rightarrow> Inl e
      | Inr m1 \<Rightarrow>
          let m2 = reset m1
          in Inr (fs(filepath \<mapsto> Pickled m2), m2))"

definition load_module :: "(string \<rightharpoonup> pickled) \<Rightarrow> string \<Rightarrow> error + module" where
  "load_module fs filepath =
     (case fs filepath of
        None \<Rightarrow> Inl (FileNotFoundError filepath)
      | Some (Pickled obj) \<Rightarrow> Inr obj)"

definition save_then_load :: "bool \<Rightarrow> module \<Rightarrow> string \<Rightarrow> error + module" where
  "save_then_load cuda_ok m filepath =
     (case save_module cuda_ok Map.empty m filepath of
        Inl e \<Rightarrow> Inl e
      | Inr (fs, m') \<Rightarrow> load_module fs filepath)"

text \<open>Every owned parameter and buffer is stored on the device \<open>d\<close>.\<close>

definition on_device :: "device \<Rightarrow> module \<Rightarrow> bool" where
  "on_device d m \<longleftrightarrow>
     list_all (\<lambda>p. dev (p_tensor p) = d) (parameters m) \<and>
     list_all (\<lambda>b. dev (b_tensor b) = d) (buffers m)"

subsection \<open>Sequences of calls\<close>






section \<open>Concrete modules for the worked examples\<close>

text \<open>
  A stand-in for the normalisation kernel, for concrete runs only: it returns its input
  and the running statistics unchanged and, in training mode, a gradient function that
  passes \<open>dy\<close> on, with the sum of the elements of \<open>dy\<close> as \<open>dw\<close> and their number as
  \<open>db\<close>.
\<close>

definition toy_grad :: grad_func where
  "toy_grad dy =
     Inr (dy, Some (vec [sum_list (data dy)]), Some (vec [real (length (data dy))]))"

definition toy_kernel :: norm_kernel where
  "toy_kernel x rmean rvar w b mo eps tr =
     Inr (x, rmean, rvar, if tr then Some toy_grad else None)"

text \<open>
  A one-channel \<open>Batchnorm1d\<close> in training mode that retains its values, and the same
  layer as a forward and a backward call leave it.
\<close>

definition bn_fresh :: module where
  "bn_fresh = set_retain_values (new_Batchnorm1d 1 (1 / 100000) (1 / 10) None True) True"

definition bn_used :: module where
  "bn_used =
     bn_fresh
       \<lparr>y_out := Some (mat 2 1 [1, 2]), y_grad := Some (mat 2 1 [1, 1]),
        backward_fn := Some (NormBack (\<lambda>dy. Inr (dy, None, None))),
        parameters := [(Parameter (ones [1]) ''bn1d_w'')\<lparr>grad := Some (vec [2])\<rparr>,
                       (Parameter (zeros [1]) ''bn1d_b'')\<lparr>grad := Some (vec [2])\<rparr>]\<rparr>"


definition reshape_training :: module where
  "reshape_training = new_Reshape [3, 2] None True"




section \<open>Early stopping: the scenario\<close>

lemma restore_params_tensors:
  "length ps \<le> length bs \<Longrightarrow>
   \<exists>ps'. restore_params ps bs = Inr ps' \<and>
         map p_tensor ps' = map p_tensor (take (length ps) bs) \<and>
         map grad ps' = map grad ps"
proof (induction ps bs rule: restore_params.induct)
  case (1 bs)
  then show ?case by simp
next
  case (2 p ps)
  then show ?case by simp
next
  case (3 p ps b bs)
  then obtain ps' where "restore_params ps bs = Inr ps'"
    and "map p_tensor ps' = map p_tensor (take (length ps) bs)"
    and "map grad ps' = map grad ps"
    by auto
  then show ?case by simp
qed

text \<open>
  C7. Patience 3, best-parameter restoration on, driven once per epoch over the losses
  1.0, 0.9, 0.95, 0.97, 0.99, with arbitrary model parameters \<open>p1\<close> to \<open>p5\<close> at the five
  epochs (a fixed model: as many parameters at epoch 5 as at epoch 2). The abort flag is
  unset after each of the epochs 1 to 4 and set after epoch 5; the callback then holds
  the best loss 0.9 and the snapshot of epoch 2, and the tensors of the model's parameters
  are those of that snapshot.
\<close>

theorem early_stopping_scenario:
  assumes "length p5 = length p2"
  shows "map (\<lambda>k. abort_after (EarlyStopping 3 True ''loss'')
                 (take k [(1.0, p1), (0.9, p2), (0.95, p3), (0.97, p4), (0.99, p5)]))
           [1, 2, 3, 4, 5]
         = [Some False, Some False, Some False, Some False, Some True] \<and>
         (\<exists>cb' tr'.
            run_epochs (EarlyStopping 3 True ''loss'', new_trainer)
              [(1.0, p1), (0.9, p2), (0.95, p3), (0.97, p4), (0.99, p5)] = Inr (cb', tr') \<and>
            abort tr' \<and>
            best_loss cb' = Finite 0.9 \<and>
            best_params cb' = Some p2 \<and>
            map p_tensor (model_parameters tr') = map p_tensor p2)"
proof -
  from assms obtain ps' where r: "restore_params p5 p2 = Inr ps'"
    and t: "map p_tensor ps' = map p_tensor p2"
    using restore_params_tensors [of p5 p2] by auto
  show ?thesis
    using r t
    by (simp add: abort_after_def run_epoch_def on_epoch_def EarlyStopping_def new_trainer_def
        epoch_history_def Let_def upto.simps)
qed

theorem early_stopping_scenario_witness:
  "length [par 5] = length [par 2] \<and>
   map (\<lambda>k. abort_after (EarlyStopping 3 True ''loss'')
                 (take k [(1.0, [par 1]), (0.9, [par 2]), (0.95, [par 3]), (0.97, [par 4]), (0.99, [par 5])]))
           [1, 2, 3, 4, 5]
         = [Some False, Some False, Some False, Some False, Some True] \<and>
   (\<exists>cb' tr'.
            run_epochs (EarlyStopping 3 True ''loss'', new_trainer)
              [(1.0, [par 1]), (0.9, [par 2]), (0.95, [par 3]), (0.97, [par 4]), (0.99, [par 5])] = Inr (cb', tr') \<and>
            abort tr' \<and>
            best_loss cb' = Finite 0.9 \<and>
            best_params cb' = Some [par 2] \<and>
            map p_tensor (model_parameters tr') = map p_tensor [par 2])"
  using early_stopping_scenario [of "[par 5]" "[par 2]" "[par 1]" "[par 3]" "[par 4]"] by simp

section \<open>Lookups by name\<close>





section \<open>Mean squared error: the gradient\<close>

lemma sum_list_update_real:
  fixes xs :: "real list"
  shows "k < length xs \<Longrightarrow> sum_list (xs[k := a]) = sum_list xs - xs ! k + a"
proof (induction xs arbitrary: k)
  case Nil
  then show ?case by simp
next
  case (Cons x xs)
  then show ?case by (cases k) simp_all
qed

lemma map2_update_left:
  "i < length ps \<Longrightarrow> i < length ts \<Longrightarrow>
   map2 g (ps[i := v]) ts = (map2 g ps ts)[i := g v (ts ! i)]"
proof (induction ps arbitrary: i ts)
  case Nil
  then show ?case by simp
next
  case (Cons p ps)
  then show ?case by (cases ts; cases i) simp_all
qed

lemma mse_update:
  assumes "i < length ps" "length ts = length ps"
  shows "mse (ps[i := v]) ts =
         (sum_list (map2 (\<lambda>p t. (p - t)\<^sup>2) ps ts) - (ps ! i - ts ! i)\<^sup>2 + (v - ts ! i)\<^sup>2)
           / real (length ps)"
  using assms by (simp add: mse_def map2_update_left sum_list_update_real)

lemma mse_partial_derivative:
  assumes "i < length ps" "length ts = length ps"
  shows "((\<lambda>v. mse (ps[i := v]) ts) has_real_derivative
            2 * (ps ! i - ts ! i) / real (length ps)) (at (ps ! i))"
proof -
  have "((\<lambda>v. (sum_list (map2 (\<lambda>p t. (p - t)\<^sup>2) ps ts) - (ps ! i - ts ! i)\<^sup>2 + (v - ts ! i)\<^sup>2)
           / real (length ps)) has_real_derivative
            2 * (ps ! i - ts ! i) / real (length ps)) (at (ps ! i))"
    using assms(1) by (auto intro!: derivative_eq_intros)
  moreover have "(\<lambda>v. mse (ps[i := v]) ts) =
     (\<lambda>v. (sum_list (map2 (\<lambda>p t. (p - t)\<^sup>2) ps ts) - (ps ! i - ts ! i)\<^sup>2 + (v - ts ! i)\<^sup>2)
           / real (length ps))"
    using assms by (simp add: mse_update)
  ultimately show ?thesis by simp
qed

text \<open>
  C6. For predictions and targets of one shape (on one device, with as many elements as
  the shape says), \<open>forward\<close> on a recording cache returns the mean squared difference and
  \<open>backward\<close> on the cache it filled returns the tensor of the prediction's shape with the
  elements \<open>2 * (p - t) / size\<close>. Each element is the partial derivative of the mean
  squared difference by that element of the prediction, at the values that were passed
  to \<open>forward\<close>.
\<close>

theorem mse_backward_exact:
  assumes "shape y_pred = shape y_true" and "dev y_pred = dev y_true"
    and "well_formed y_pred" and "well_formed y_true"
  shows "\<exists>l c' g.
    FMeanSquaredError_forward (Recording m) y_pred y_true = Inr (l, c') \<and>
    data l = [mse (data y_pred) (data y_true)] \<and>
    FMeanSquaredError_backward c' = Inr g \<and>
    g = \<lparr>shape = shape y_pred,
         data = map2 (\<lambda>p t. 2 * (p - t) / real (tensor_size y_pred)) (data y_pred) (data y_true),
         dev = dev y_pred\<rparr> \<and>
    length (data g) = length (data y_pred) \<and>
    (\<forall>i < length (data y_pred).
       ((\<lambda>v. mse ((data y_pred)[i := v]) (data y_true)) has_real_derivative data g ! i)
         (at (data y_pred ! i)))"
proof -
  have len: "length (data y_true) = length (data y_pred)"
    using assms by (simp add: well_formed_def tensor_size_def)
  have sz: "tensor_size y_pred = length (data y_pred)"
    using assms(3) by (simp add: well_formed_def)
  define dif where "dif = y_pred\<lparr>data := map2 (\<lambda>u v. u - v) (data y_pred) (data y_true)\<rparr>"
  define c' where "c' = cache_set (cache_set (Recording m) ''y_pred'' y_pred) ''dif'' dif"
  define g where "g = \<lparr>shape = shape y_pred,
           data = map2 (\<lambda>p t. 2 * (p - t) / real (tensor_size y_pred)) (data y_pred) (data y_true),
           dev = dev y_pred\<rparr>"
  have fw: "FMeanSquaredError_forward (Recording m) y_pred y_true =
              Inr (tensor_mean (tensor_pow dif 2), c')"
    using assms(1,2) by (simp add: FMeanSquaredError_forward_def tensor_sub_def dif_def c'_def)
  have l: "data (tensor_mean (tensor_pow dif 2)) = [mse (data y_pred) (data y_true)]"
    using len
    by (simp add: tensor_mean_def tensor_pow_def dif_def mse_def split_def comp_def)
  have bw: "FMeanSquaredError_backward c' = Inr g"
    by (simp add: FMeanSquaredError_backward_def c'_def cache_set_def cache_get_def
        tensor_div_scalar_def tensor_scale_def dif_def g_def split_def comp_def algebra_simps)
  have gd: "data g ! i = 2 * (data y_pred ! i - data y_true ! i) / real (length (data y_pred))"
    if "i < length (data y_pred)" for i
    using that len by (simp add: g_def sz)
  have der: "((\<lambda>v. mse ((data y_pred)[i := v]) (data y_true)) has_real_derivative data g ! i)
            (at (data y_pred ! i))" if "i < length (data y_pred)" for i
    using mse_partial_derivative [OF that len] gd [OF that] by simp
  have gl: "length (data g) = length (data y_pred)"
    using len by (simp add: g_def)
  show ?thesis
    using fw l bw der gl g_def by blast
qed

theorem mse_backward_exact_witness:
  "shape (vec [1, 2]) = shape (vec [0, 4]) \<and> dev (vec [1, 2]) = dev (vec [0, 4]) \<and>
   well_formed (vec [1, 2]) \<and> well_formed (vec [0, 4]) \<and>
   (\<exists>l c'. FMeanSquaredError_forward (Recording Map.empty) (vec [1, 2]) (vec [0, 4]) = Inr (l, c') \<and>
      data l = [5 / 2] \<and>
      FMeanSquaredError_backward c' = Inr (vec [1, - 2]))"
proof -
  have pre: "shape (vec [1, 2]) = shape (vec [0, 4]) \<and> dev (vec [1, 2]) = dev (vec [0, 4]) \<and>
     well_formed (vec [1, 2]) \<and> well_formed (vec [0, 4])"
    by (simp add: vec_def well_formed_def tensor_size_def)
  from mse_backward_exact [of "vec [1, 2]" "vec [0, 4]" Map.empty] pre
  obtain l c' where "FMeanSquaredError_forward (Recording Map.empty) (vec [1, 2]) (vec [0, 4]) = Inr (l, c')"
    and "data l = [mse (data (vec [1, 2])) (data (vec [0, 4]))]"
    and "FMeanSquaredError_backward c' =
      Inr \<lparr>shape = shape (vec [1, 2]),
         data = map2 (\<lambda>p t. 2 * (p - t) / real (tensor_size (vec [1, 2]))) (data (vec [1, 2])) (data (vec [0, 4])),
         dev = dev (vec [1, 2])\<rparr>"
    by blast
  then have "FMeanSquaredError_forward (Recording Map.empty) (vec [1, 2]) (vec [0, 4]) = Inr (l, c') \<and>
      data l = [5 / 2] \<and>
      FMeanSquaredError_backward c' = Inr (vec [1, - 2])"
    by (simp add: vec_def mse_def tensor_size_def power2_eq_square)
  with pre show ?thesis by blast
qed


section \<open>Fully connected layer: the scenario\<close>

lemma w_ax_two: "w_ax 2 = [1, 0]"
  by (simp add: w_ax_def upto.simps)

text \<open>
  C5. The layer with \<open>in_channels = 3\<close>, \<open>out_channels = 2\<close>, no bias and the weights
  \<open>W = [[w11, w12], [w21, w22], [w31, w32]]\<close>, in training mode, on the all-ones input of
  shape \<open>(4, 3)\<close>: every row of the output is the vector of the column sums of \<open>W\<close>.
  The captured \<open>backward\<close> on the all-ones output gradient of shape \<open>(4, 2)\<close> sets the
  weight gradient to \<open>x\<^sup>T @ ones\<close>, the \<open>3 x 2\<close> tensor of fours, sets no bias gradient,
  and returns \<open>ones @ W\<^sup>T\<close>, whose every row is the vector of the row sums of \<open>W\<close>.
\<close>

theorem linear_scenario:
  "\<exists>l1 l2 xT wT.
     Linear_call ((Linear 3 2 (mat 3 2 [w11, w12, w21, w22, w31, w32]) False)\<lparr>lin_training := True\<rparr>)
         (ones [4, 3])
       = Inr (mat 4 2 (concat (replicate 4 [w11 + w21 + w31, w12 + w22 + w32])), l1) \<and>
     Linear_backward l1 (ones [4, 2])
       = Inr (mat 4 3 (concat (replicate 4 [w11 + w12, w21 + w22, w31 + w32])), l2) \<and>
     lin_w_grad l2 = Some (mat 3 2 (replicate 6 4)) \<and>
     lin_b_grad l2 = None \<and>
     transpose2 (ones [4, 3]) = Inr xT \<and>
     matmul xT (ones [4, 2]) = Inr (mat 3 2 (replicate 6 4)) \<and>
     transpose2 (mat 3 2 [w11, w12, w21, w22, w31, w32]) = Inr wT \<and>
     matmul (ones [4, 2]) wT
       = Inr (mat 4 3 (concat (replicate 4 [w11 + w12, w21 + w22, w31 + w32])))"
  by (simp add: Linear_call_def Linear_backward_def Linear_def mat_def ones_def matmul_def
      transpose2_def Let_def upt_rec eval_nat_numeral add.assoc)


section \<open>Modules: \<open>reset\<close>\<close>

lemma reset_idem: "reset (reset m) = reset m"
  by (simp add: reset_def comp_def)

lemma forward_reset_output:
  "map_sum id fst (forward K (reset m) x) = map_sum id fst (forward K m x)"
  by (cases "kind m")
    (auto simp: forward_def reset_def Reshape_forward_def Batchnorm1d_forward_def check_dims_def
      Let_def split: list.splits sum.splits option.splits prod.splits)

lemma call_reset_output:
  "map_sum id fst (call K (reset m) x) = map_sum id fst (call K m x)"
  using forward_reset_output [of K m x]
  by (auto simp: call_def split: sum.splits prod.splits)

lemma forward_frame:
  assumes "forward K m x = Inr (y, m')"
  shows "parameters m' = parameters m \<and> y_out m' = y_out m \<and> y_grad m' = y_grad m \<and>
         retain_values m' = retain_values m \<and> training m' = training m \<and>
         trainable m' = trainable m \<and> label m' = label m \<and> kind m' = kind m \<and>
         m_device m' = m_device m \<and>
         (backward_fn m' = backward_fn m \<or> (training m \<and> backward_fn m' \<noteq> None))"
  using assms
  by (cases "kind m")
    (auto simp: forward_def Reshape_forward_def Batchnorm1d_forward_def Let_def
      split: list.splits sum.splits option.splits prod.splits if_splits)

lemma call_frame:
  assumes "call K m x = Inr (y, m')"
  shows "parameters m' = parameters m \<and>
         y_out m' = (if retain_values m then Some y else y_out m) \<and>
         y_grad m' = (if retain_values m \<and> y_out m = None then None else y_grad m) \<and>
         retain_values m' = retain_values m \<and> training m' = training m \<and>
         trainable m' = trainable m \<and> label m' = label m \<and> kind m' = kind m \<and>
         m_device m' = m_device m \<and>
         (backward_fn m' = backward_fn m \<or> (training m \<and> backward_fn m' \<noteq> None))"
proof -
  from assms obtain m1 where f: "forward K m x = Inr (y, m1)" and m': "m' = set_y m1 y"
    by (auto simp: call_def split: sum.splits prod.splits)
  from forward_frame [OF f] m' show ?thesis
    by (auto simp: set_y_def split: option.splits)
qed

text \<open>
  C8. After \<open>reset\<close> the retained output (with its gradient) is absent, the backward
  continuation is absent and the gradient slot of every owned parameter is absent. A
  second \<open>reset\<close> changes nothing. The reset module accepts a forward call: the call returns
  what it would have returned without the \<open>reset\<close> (the same output or the same error), and
  where it succeeds the module holds the new output (if it retains values), no output
  gradient, no parameter gradient, and a continuation only if it is in training mode.
\<close>

theorem reset_postcondition:
  "y_out (reset m) = None \<and> y_grad (reset m) = None \<and> backward_fn (reset m) = None \<and>
   map grad (parameters (reset m)) = replicate (length (parameters m)) None \<and>
   reset (reset m) = reset m \<and>
   map_sum id fst (call K (reset m) x) = map_sum id fst (call K m x) \<and>
   (\<forall>y m'. call K (reset m) x = Inr (y, m') \<longrightarrow>
      y_out m' = (if retain_values m then Some y else None) \<and>
      y_grad m' = None \<and>
      map grad (parameters m') = replicate (length (parameters m)) None \<and>
      (backward_fn m' \<noteq> None \<longrightarrow> training m))"
proof -
  have g: "map grad (parameters (reset m)) = replicate (length (parameters m)) None"
    by (simp add: reset_def comp_def map_replicate_const)
  have post: "y_out m' = (if retain_values m then Some y else None) \<and>
      y_grad m' = None \<and>
      map grad (parameters m') = replicate (length (parameters m)) None \<and>
      (backward_fn m' \<noteq> None \<longrightarrow> training m)"
    if "call K (reset m) x = Inr (y, m')" for y m'
    using call_frame [OF that] g by (auto simp: reset_def)
  show ?thesis
    using g post reset_idem [of m] call_reset_output [of K m x]
    by (simp add: reset_def)
qed


theorem reset_postcondition_witness:
  "\<exists>m'. call toy_kernel (reset bn_used) (mat 2 1 [3, 4]) = Inr (mat 2 1 [3, 4], m') \<and>
     y_out m' = Some (mat 2 1 [3, 4]) \<and> y_grad m' = None \<and>
     map grad (parameters m') = [None, None] \<and>
     backward_fn m' \<noteq> None \<and> training bn_used \<and> retain_values bn_used"
proof -
  obtain m' where run: "call toy_kernel (reset bn_used) (mat 2 1 [3, 4]) = Inr (mat 2 1 [3, 4], m')"
    and k: "backward_fn m' \<noteq> None"
    by (simp add: call_def forward_def reset_def bn_used_def bn_fresh_def new_Batchnorm1d_def
        new_module_def set_retain_values_def Batchnorm1d_forward_def check_dims_def mat_def
        toy_kernel_def Parameter_def Buffer_def set_y_def)
  have r: "retain_values bn_used" "length (parameters bn_used) = 2"
    by (simp_all add: bn_used_def bn_fresh_def set_retain_values_def)
  from reset_postcondition [of bn_used toy_kernel "mat 2 1 [3, 4]"] run k r
  show ?thesis by (auto simp: numeral_2_eq_2)
qed


section \<open>Modules: \<open>backward\<close> and the training mode\<close>















section \<open>DataLoader: the batches partition the samples\<close>





















section \<open>Modules: when a continuation is stored\<close>







section \<open>Modules: saving and loading\<close>

lemma to_device_CPU:
  "\<exists>m1. to_device cuda_ok m CPU = Inr m1 \<and> m_device m1 = CPU \<and>
     training m1 = training m \<and> label m1 = label m \<and> kind m1 = kind m \<and>
     trainable m1 = trainable m \<and> retain_values m1 = retain_values m \<and>
     map p_label (parameters m1) = map p_label (parameters m) \<and>
     map requires_grad (parameters m1) = map requires_grad (parameters m) \<and>
     map (\<lambda>p. shape (p_tensor p)) (parameters m1) = map (\<lambda>p. shape (p_tensor p)) (parameters m) \<and>
     map (\<lambda>p. data (p_tensor p)) (parameters m1) = map (\<lambda>p. data (p_tensor p)) (parameters m) \<and>
     map b_label (buffers m1) = map b_label (buffers m) \<and>
     map (\<lambda>b. shape (b_tensor b)) (buffers m1) = map (\<lambda>b. shape (b_tensor b)) (buffers m) \<and>
     map (\<lambda>b. data (b_tensor b)) (buffers m1) = map (\<lambda>b. data (b_tensor b)) (buffers m) \<and>
     (on_device (m_device m) m \<longrightarrow> on_device CPU m1)"
  by (auto simp: to_device_def check_device_availability_def tensor_on_def comp_def
      on_device_def list_all_iff)


text \<open>
  C4, as amended. \<open>save_module\<close> moves the module to the CPU, resets it and writes it;
  \<open>load_module\<close> on the file returns the module as it was written: the same label, class,
  and labels, shapes and values of the parameters and buffers; no continuation, no
  retained output and no parameter gradient; on the CPU (the owned tensors too, when
  they were on the module's device before); and with the training flag that the module
  had when it was saved.
\<close>

theorem save_load_round_trip:
  "\<exists>fs' m'.
     save_module cuda_ok fs m filepath = Inr (fs', m') \<and>
     load_module fs' filepath = Inr m' \<and>
     training m' = training m \<and>
     backward_fn m' = None \<and> y_out m' = None \<and> y_grad m' = None \<and>
     map grad (parameters m') = replicate (length (parameters m)) None \<and>
     label m' = label m \<and> kind m' = kind m \<and> m_device m' = CPU \<and>
     map p_label (parameters m') = map p_label (parameters m) \<and>
     map (\<lambda>p. shape (p_tensor p)) (parameters m') = map (\<lambda>p. shape (p_tensor p)) (parameters m) \<and>
     map (\<lambda>p. data (p_tensor p)) (parameters m') = map (\<lambda>p. data (p_tensor p)) (parameters m) \<and>
     map b_label (buffers m') = map b_label (buffers m) \<and>
     map (\<lambda>b. shape (b_tensor b)) (buffers m') = map (\<lambda>b. shape (b_tensor b)) (buffers m) \<and>
     map (\<lambda>b. data (b_tensor b)) (buffers m') = map (\<lambda>b. data (b_tensor b)) (buffers m) \<and>
     (on_device (m_device m) m \<longrightarrow> on_device CPU m')"
proof -
  from to_device_CPU [of cuda_ok m] obtain m1 where
    td: "to_device cuda_ok m CPU = Inr m1" and
    fr: "m_device m1 = CPU" "training m1 = training m" "label m1 = label m" "kind m1 = kind m"
      "map p_label (parameters m1) = map p_label (parameters m)"
      "map (\<lambda>p. shape (p_tensor p)) (parameters m1) = map (\<lambda>p. shape (p_tensor p)) (parameters m)"
      "map (\<lambda>p. data (p_tensor p)) (parameters m1) = map (\<lambda>p. data (p_tensor p)) (parameters m)"
      "map b_label (buffers m1) = map b_label (buffers m)"
      "map (\<lambda>b. shape (b_tensor b)) (buffers m1) = map (\<lambda>b. shape (b_tensor b)) (buffers m)"
      "map (\<lambda>b. data (b_tensor b)) (buffers m1) = map (\<lambda>b. data (b_tensor b)) (buffers m)"
      and od: "on_device (m_device m) m \<longrightarrow> on_device CPU m1"
    by blast
  have len: "length (parameters m1) = length (parameters m)"
    using fr(5) by (metis length_map)
  have sv: "save_module cuda_ok fs m filepath = Inr (fs(filepath \<mapsto> Pickled (reset m1)), reset m1)"
    by (simp add: save_module_def td Let_def)
  have ld: "load_module (fs(filepath \<mapsto> Pickled (reset m1))) filepath = Inr (reset m1)"
    by (simp add: load_module_def)
  have rs: "training (reset m1) = training m1" "backward_fn (reset m1) = None"
    "y_out (reset m1) = None" "y_grad (reset m1) = None"
    "map grad (parameters (reset m1)) = replicate (length (parameters m1)) None"
    "label (reset m1) = label m1" "kind (reset m1) = kind m1" "m_device (reset m1) = m_device m1"
    "map p_label (parameters (reset m1)) = map p_label (parameters m1)"
    "map (\<lambda>p. shape (p_tensor p)) (parameters (reset m1)) = map (\<lambda>p. shape (p_tensor p)) (parameters m1)"
    "map (\<lambda>p. data (p_tensor p)) (parameters (reset m1)) = map (\<lambda>p. data (p_tensor p)) (parameters m1)"
    "buffers (reset m1) = buffers m1"
    "on_device CPU m1 \<longrightarrow> on_device CPU (reset m1)"
    by (simp_all add: reset_def comp_def map_replicate_const on_device_def list_all_iff)
  show ?thesis
    unfolding sv using ld rs fr od len
    by (intro exI [of _ "fs(filepath \<mapsto> Pickled (reset m1))"] exI [of _ "reset m1"]) simp
qed

theorem save_load_round_trip_witness:
  "on_device (m_device bn_used) bn_used \<and> y_out bn_used \<noteq> None \<and> backward_fn bn_used \<noteq> None \<and>
   map grad (parameters bn_used) = [Some (vec [2]), Some (vec [2])] \<and>
   (\<exists>fs' m'. save_module False Map.empty bn_used ''model.cp'' = Inr (fs', m') \<and>
      load_module fs' ''model.cp'' = Inr m' \<and> training m' \<and> backward_fn m' = None \<and>
      y_out m' = None \<and> map grad (parameters m') = [None, None] \<and> on_device CPU m')"
proof -
  have p: "on_device (m_device bn_used) bn_used" "y_out bn_used \<noteq> None"
    "backward_fn bn_used \<noteq> None" "map grad (parameters bn_used) = [Some (vec [2]), Some (vec [2])]"
    "training bn_used" "length (parameters bn_used) = 2"
    by (simp_all add: bn_used_def bn_fresh_def set_retain_values_def new_Batchnorm1d_def
        new_module_def on_device_def Parameter_def Buffer_def ones_def zeros_def)
  from save_load_round_trip [of False Map.empty bn_used "''model.cp''"] p
  show ?thesis by (auto simp: numeral_2_eq_2)
qed

text \<open>
  C4 as stated fails: a module saved in training mode is loaded in training mode.
\<close>

theorem load_keeps_training_counterexample:
  "training reshape_training \<and>
   save_then_load False reshape_training ''model.cp'' = Inr reshape_training"
  by (simp add: save_then_load_def save_module_def load_module_def to_device_def reset_def
      reshape_training_def new_Reshape_def new_module_def Let_def)


section \<open>Gradient slots: accumulate or overwrite\<close>

















end
